theory Spec2Isabelle
  imports Complex_Main "HOL-Library.AList"
begin

section \<open>JavaScript numbers\<close>

text \<open>
  Amounts, fees, rewards and balances are JavaScript numbers: IEEE 754 doubles. A finite
  double is the rational it denotes; \<open>NaN\<close> and the two infinities are values of their
  own. Every arithmetic operation rounds its exact result to the nearest double, ties to
  the even significand, and a result beyond the largest double becomes an infinity. The
  sign of zero is not modelled: no operation of the code observes it.
\<close>

datatype jsnum = Num rat | NaN | PosInf | NegInf

text \<open>The number of binary digits of a positive integer.\<close>

function bit_length :: "int \<Rightarrow> int" where
  "bit_length n = (if n \<le> 0 then 0 else 1 + bit_length (n div 2))"
  by pat_completeness auto
termination
  by (relation "measure nat") auto

declare bit_length.simps [simp del]

text \<open>
  Rounding works on a fraction of integers. \<open>scaled p q e\<close> is the fraction
  \<open>p / q / 2 ^ e\<close>; the denominator stays positive.
\<close>

definition scaled :: "int \<Rightarrow> int \<Rightarrow> int \<Rightarrow> int \<times> int" where
  "scaled p q e = (if 0 \<le> e then (p, q * 2 ^ nat e) else (p * 2 ^ nat (- e), q))"

text \<open>
  For positive \<open>p\<close> and \<open>q\<close>, the exponent \<open>e\<close> with \<open>2 ^ e \<le> p / q < 2 ^ (e + 1)\<close>:
  the difference of the bit lengths of \<open>p\<close> and \<open>q\<close>, or one less.
\<close>

definition floor_log2 :: "int \<Rightarrow> int \<Rightarrow> int" where
  "floor_log2 p q =
     (let e = bit_length p - bit_length q
      in case scaled p q e of (a, b) \<Rightarrow> if b \<le> a then e else e - 1)"

text \<open>The integer nearest to \<open>a / b\<close>, for positive \<open>b\<close>; a tie goes to the even one.\<close>

definition round_half_even :: "int \<Rightarrow> int \<Rightarrow> int" where
  "round_half_even a b =
     (let f = a div b; m = 2 * (a mod b)
      in if m < b then f
         else if b < m then f + 1
         else if even f then f else f + 1)"

text \<open>
  Rounding \<open>p / q\<close> to a double. Doubles around it are the multiples of \<open>2 ^ e\<close>, where
  \<open>e\<close> is 52 below the binary exponent of \<open>p / q\<close> and at least \<open>- 1074\<close> (the
  subnormal range). The rounded multiple \<open>n * 2 ^ e\<close> overflows when it reaches
  \<open>2 ^ 1024\<close>, that is when the bit length of \<open>n\<close> plus \<open>e\<close> exceeds 1024.
\<close>

definition round_to_double :: "int \<Rightarrow> int \<Rightarrow> jsnum" where
  "round_to_double p q =
     (if p = 0 then Num 0
      else let e = max (floor_log2 \<bar>p\<bar> q - 52) (- 1074);
               n = (case scaled p q e of (a, b) \<Rightarrow> round_half_even a b)
           in if 1024 < bit_length \<bar>n\<bar> + e then (if 0 < p then PosInf else NegInf)
              else Num (of_int n * 2 powi e))"

definition to_double :: "rat \<Rightarrow> jsnum" where
  "to_double r = (case quotient_of r of (p, q) \<Rightarrow> round_to_double p q)"


fun js_add :: "jsnum \<Rightarrow> jsnum \<Rightarrow> jsnum" where
  "js_add (Num a) (Num b) = to_double (a + b)"
| "js_add NaN _ = NaN"
| "js_add _ NaN = NaN"
| "js_add PosInf NegInf = NaN"
| "js_add NegInf PosInf = NaN"
| "js_add PosInf _ = PosInf"
| "js_add _ PosInf = PosInf"
| "js_add NegInf _ = NegInf"
| "js_add _ NegInf = NegInf"

fun js_sub :: "jsnum \<Rightarrow> jsnum \<Rightarrow> jsnum" where
  "js_sub (Num a) (Num b) = to_double (a - b)"
| "js_sub NaN _ = NaN"
| "js_sub _ NaN = NaN"
| "js_sub PosInf PosInf = NaN"
| "js_sub NegInf NegInf = NaN"
| "js_sub PosInf _ = PosInf"
| "js_sub _ PosInf = NegInf"
| "js_sub NegInf _ = NegInf"
| "js_sub _ NegInf = PosInf"

text \<open>Comparisons: each is false when an operand is \<open>NaN\<close>.\<close>

fun js_le :: "jsnum \<Rightarrow> jsnum \<Rightarrow> bool" where
  "js_le (Num a) (Num b) = (a \<le> b)"
| "js_le NaN _ = False"
| "js_le _ NaN = False"
| "js_le NegInf _ = True"
| "js_le _ PosInf = True"
| "js_le _ _ = False"

fun js_lt :: "jsnum \<Rightarrow> jsnum \<Rightarrow> bool" where
  "js_lt (Num a) (Num b) = (a < b)"
| "js_lt NaN _ = False"
| "js_lt _ NaN = False"
| "js_lt PosInf _ = False"
| "js_lt _ NegInf = False"
| "js_lt _ _ = True"

text \<open>Truthiness of a number: \<open>0\<close> and \<open>NaN\<close> are falsy.\<close>

fun js_truthy :: "jsnum \<Rightarrow> bool" where
  "js_truthy (Num a) = (a \<noteq> 0)"
| "js_truthy NaN = False"
| "js_truthy _ = True"

text \<open>
  \<open>parseFloat\<close>. Its argument is what the text or literal denotes: a real number,
  nothing numeric (\<open>NaN\<close>) or an infinity; the result is the nearest double.
\<close>

fun parseFloat :: "jsnum \<Rightarrow> jsnum" where
  "parseFloat (Num r) = to_double r"
| "parseFloat x = x"

section \<open>Transaction\<close>

record transaction =
  sender :: string
  receiver :: string
  amount :: jsnum
  fee :: jsnum
  timestamp :: int
  signature :: string
  txId :: string

text \<open>
  The runtime functions the code calls and does not define: the SHA-256 hex digest of
  \<open>crypto\<close>, the conversion of a number to a string that \<open>+\<close> applies when it
  concatenates, and \<open>JSON.stringify\<close> on a list of transactions. They are parameters of
  every definition that reaches them.
\<close>

record js_env =
  sha256 :: "string \<Rightarrow> string"
  num_to_string :: "jsnum \<Rightarrow> string"
  json_stringify :: "transaction list \<Rightarrow> string"

text \<open>
  Counters (index, nonce) are natural numbers and timestamps are integers; both are
  numbers to the runtime and are printed by the same conversion.
\<close>

definition nat_to_string :: "js_env \<Rightarrow> nat \<Rightarrow> string" where
  "nat_to_string env n = num_to_string env (Num (of_nat n))"

definition int_to_string :: "js_env \<Rightarrow> int \<Rightarrow> string" where
  "int_to_string env n = num_to_string env (Num (of_int n))"

text \<open>\<open>timestamp || Date.now()\<close>: a missing or zero timestamp is replaced by the clock.\<close>

definition or_now :: "int option \<Rightarrow> int \<Rightarrow> int" where
  "or_now ts now = (case ts of None \<Rightarrow> now | Some t \<Rightarrow> if t = 0 then now else t)"

definition tx_calculateHash :: "js_env \<Rightarrow> transaction \<Rightarrow> string" where
  "tx_calculateHash env t =
     sha256 env (sender t @ receiver t @ num_to_string env (amount t)
                 @ num_to_string env (fee t) @ int_to_string env (timestamp t))"

text \<open>The constructor; \<open>now\<close> is what \<open>Date.now()\<close> returns.\<close>

definition Transaction_new ::
  "js_env \<Rightarrow> int \<Rightarrow> string \<Rightarrow> string \<Rightarrow> jsnum \<Rightarrow> jsnum \<Rightarrow> int option \<Rightarrow> transaction" where
  "Transaction_new env now s r amt f ts =
     (let t0 = \<lparr>sender = s, receiver = r, amount = parseFloat amt, fee = parseFloat f,
                timestamp = or_now ts now, signature = [], txId = []\<rparr>
      in t0\<lparr>txId := tx_calculateHash env t0\<rparr>)"

definition is_system_sender :: "string \<Rightarrow> bool" where
  "is_system_sender s = (s = ''COINBASE'' \<or> s = ''GENESIS'')"

definition tx_isValid :: "js_env \<Rightarrow> transaction \<Rightarrow> bool" where
  "tx_isValid env t =
     (if sender t = [] \<or> receiver t = [] then False
      else if js_le (amount t) (Num 0) then False
      else if js_lt (fee t) (Num 0) then False
      else if is_system_sender (sender t) then True
      else txId t = tx_calculateHash env t)"

section \<open>Block\<close>

text \<open>
  \<open>merkleRoot\<close> is optional because the constructor reads the field before it has
  assigned it: \<open>None\<close> is JavaScript's \<open>undefined\<close>.
\<close>

record block =
  index :: nat
  blk_timestamp :: int
  transactions :: "transaction list"
  previousHash :: string
  nonce :: nat
  difficulty :: nat
  hash :: string
  merkleRoot :: "string option"
  miner :: string
  reward :: jsnum

text \<open>String concatenation turns \<open>undefined\<close> into the text \<open>undefined\<close>.\<close>

definition undefined_or :: "string option \<Rightarrow> string" where
  "undefined_or v = (case v of None \<Rightarrow> ''undefined'' | Some s \<Rightarrow> s)"

definition block_calculateHash :: "js_env \<Rightarrow> block \<Rightarrow> string" where
  "block_calculateHash env b =
     sha256 env (nat_to_string env (index b) @ previousHash b
                 @ int_to_string env (blk_timestamp b) @ json_stringify env (transactions b)
                 @ nat_to_string env (nonce b) @ undefined_or (merkleRoot b))"

text \<open>The leaf of a transaction: \<open>tx.txId || tx.calculateHash()\<close>.\<close>

definition merkle_leaf :: "js_env \<Rightarrow> transaction \<Rightarrow> string" where
  "merkle_leaf env t = (if txId t \<noteq> [] then txId t else tx_calculateHash env t)"

text \<open>
  One pass of the inner \<open>for\<close> loop, two hashes at a time; \<open>hashes[i + 1] || left\<close>
  takes \<open>left\<close> when there is no right neighbour and when the neighbour is the empty
  string.
\<close>

fun merkle_level :: "js_env \<Rightarrow> string list \<Rightarrow> string list" where
  "merkle_level env [] = []"
| "merkle_level env [l] = [sha256 env (l @ l)]"
| "merkle_level env (l # r # rest) =
     sha256 env (l @ (if r \<noteq> [] then r else l)) # merkle_level env rest"

text \<open>The outer \<open>while\<close> loop; every pass halves the number of hashes, rounding up.\<close>

function merkle_loop :: "js_env \<Rightarrow> string list \<Rightarrow> string list" where
  "merkle_loop env hs = (if length hs > 1 then merkle_loop env (merkle_level env hs) else hs)"
  by pat_completeness auto
termination
proof (relation "measure (\<lambda>(env, hs). length hs)")
  show "wf (measure (\<lambda>(env :: js_env, hs :: string list). length hs))"
    by simp
next
  fix env :: js_env and hs :: "string list"
  assume long: "1 < length hs"
  have halves: "length (merkle_level e xs) = (length xs + 1) div 2" for e xs
    by (induction e xs rule: merkle_level.induct) simp_all
  from long show "((env, merkle_level env hs), (env, hs)) \<in> measure (\<lambda>(env, hs). length hs)"
    by (simp add: halves)
qed

declare merkle_loop.simps [simp del]

text \<open>\<open>hashes[0]\<close> of an empty array is \<open>undefined\<close>.\<close>

definition calculateMerkleRoot :: "js_env \<Rightarrow> block \<Rightarrow> string option" where
  "calculateMerkleRoot env b =
     (if length (transactions b) = 0 then Some (sha256 env [])
      else (case merkle_loop env (map (merkle_leaf env) (transactions b)) of
              [] \<Rightarrow> None
            | h # _ \<Rightarrow> Some h))"

text \<open>
  The constructor, in the order of its assignments: the hash is computed while
  \<open>merkleRoot\<close> is still unassigned, the Merkle root after it. Until they are assigned,
  \<open>hash\<close>, \<open>miner\<close> and \<open>reward\<close> hold values that neither computation reads.
\<close>

definition Block_new ::
  "js_env \<Rightarrow> int \<Rightarrow> nat \<Rightarrow> transaction list \<Rightarrow> int option \<Rightarrow> string \<Rightarrow> nat \<Rightarrow> nat \<Rightarrow> block" where
  "Block_new env now i txs ts prev n d =
     (let b0 = \<lparr>index = i, blk_timestamp = or_now ts now, transactions = txs,
                previousHash = prev, nonce = n, difficulty = d, hash = [],
                merkleRoot = None, miner = [], reward = Num 0\<rparr>;
          b1 = b0\<lparr>hash := block_calculateHash env b0\<rparr>;
          b2 = b1\<lparr>merkleRoot := calculateMerkleRoot env b1\<rparr>
      in b2\<lparr>miner := [], reward := Num 0\<rparr>)"

text \<open>
  The \<open>while\<close> loop of \<open>mineBlock\<close>. It may run forever, so its result is optional:
  \<open>None\<close> is a search that never returns.
\<close>

definition hash_meets :: "nat \<Rightarrow> string \<Rightarrow> bool" where
  "hash_meets d h = (take d h = replicate d (CHR ''0''))"

text \<open>
  \<open>this.nonce++\<close> adds one in double arithmetic: from \<open>2 ^ 53\<close> on the sum is rounded
  and the counter can stay where it is.
\<close>

definition js_increment :: "nat \<Rightarrow> nat" where
  "js_increment n = (case to_double (of_nat n + 1) of Num r \<Rightarrow> nat \<lfloor>r\<rfloor> | _ \<Rightarrow> n)"

definition next_nonce :: "js_env \<Rightarrow> block \<Rightarrow> block" where
  "next_nonce env b =
     (let b' = b\<lparr>nonce := js_increment (nonce b)\<rparr> in b'\<lparr>hash := block_calculateHash env b'\<rparr>)"

partial_function (option) mine_loop :: "js_env \<Rightarrow> nat \<Rightarrow> block \<Rightarrow> block option" where
  "mine_loop env d b = (if hash_meets d (hash b) then Some b else mine_loop env d (next_nonce env b))"

declare mine_loop.simps [code]

text \<open>
  What \<open>mineBlock\<close> returns, without the two figures that depend on the wall clock
  (\<open>miningTime\<close>, \<open>hashRate\<close>).
\<close>

record mining_stats =
  stat_nonce :: nat
  stat_hash :: string

definition mineBlock :: "js_env \<Rightarrow> nat \<Rightarrow> string \<Rightarrow> block \<Rightarrow> (block \<times> mining_stats) option" where
  "mineBlock env d minerAddress b =
     (case mine_loop env d (b\<lparr>miner := minerAddress\<rparr>) of
        None \<Rightarrow> None
      | Some b' \<Rightarrow> Some (b', \<lparr>stat_nonce = nonce b', stat_hash = hash b'\<rparr>))"

text \<open>\<open>isValid(previousBlock)\<close>; the argument is optional.\<close>

definition block_isValid :: "js_env \<Rightarrow> block \<Rightarrow> block option \<Rightarrow> bool" where
  "block_isValid env b previousBlock =
     (if hash b \<noteq> block_calculateHash env b then False
      else if (case previousBlock of None \<Rightarrow> False | Some p \<Rightarrow> previousHash b \<noteq> hash p) then False
      else if \<not> hash_meets (difficulty b) (hash b) then False
      else if merkleRoot b \<noteq> calculateMerkleRoot env b then False
      else list_all (tx_isValid env) (transactions b))"

section \<open>Ledger\<close>

text \<open>
  The balance table is the object \<open>{}\<close>. Besides the keys assigned to it, it answers to
  the twelve keys it inherits from \<open>Object.prototype\<close>, whose values are functions (an
  object for \<open>__proto__\<close>). What such a value does in the code is the same for all of
  them and for the text that \<open>+=\<close> builds on one: it is truthy, \<open>-\<close> turns it into
  \<open>NaN\<close>, \<open>+\<close> a number appends to it, and a comparison with a number is false. So a
  value of the table is a number or \<open>Other\<close>.
\<close>

datatype jsval = Number jsnum | Other

definition prototype_keys :: "string list" where
  "prototype_keys =
     [''constructor'', ''__defineGetter__'', ''__defineSetter__'', ''hasOwnProperty'',
      ''__lookupGetter__'', ''__lookupSetter__'', ''isPrototypeOf'', ''propertyIsEnumerable'',
      ''toString'', ''valueOf'', ''__proto__'', ''toLocaleString'']"

text \<open>
  The table is an association list of the keys assigned, in the order of their first
  assignment. Reading \<open>balances[k]\<close> gives \<open>None\<close> for \<open>undefined\<close>; assigning a number
  or a text to \<open>__proto__\<close> changes nothing.
\<close>

definition read_entry :: "(string \<times> jsval) list \<Rightarrow> string \<Rightarrow> jsval option" where
  "read_entry bal k =
     (if k = ''__proto__'' then Some Other
      else case map_of bal k of
             Some v \<Rightarrow> Some v
           | None \<Rightarrow> if k \<in> set prototype_keys then Some Other else None)"

definition write_entry :: "(string \<times> jsval) list \<Rightarrow> string \<Rightarrow> jsval \<Rightarrow> (string \<times> jsval) list" where
  "write_entry bal k v = (if k = ''__proto__'' then bal else AList.update k v bal)"

text \<open>
  The fields of \<open>GSCBlockchain\<close> that change. Those the constructor sets once and no
  method assigns again are constants below.
\<close>

record ledger =
  chain :: "block list"
  mempool :: "transaction list"
  balances :: "(string \<times> jsval) list"
  isMining :: bool
  currentSupply :: jsnum

definition ledger_difficulty :: nat where
  "ledger_difficulty = 5"

definition miningReward :: jsnum where
  "miningReward = Num 50"

definition halvingInterval :: int where
  "halvingInterval = 1051200"

definition genesisAddress :: string where
  "genesisAddress = ''GSC1705641e65321ef23ac5fb3d470f39627''"

definition genesisReward :: jsnum where
  "genesisReward = Num 255"

text \<open>\<open>this.chain[this.chain.length - 1]\<close>, \<open>undefined\<close> on an empty chain.\<close>

definition getLatestBlock :: "ledger \<Rightarrow> block option" where
  "getLatestBlock st = (if chain st = [] then None else Some (last (chain st)))"

text \<open>
  Division, with zero taken as \<open>+0\<close>; the only divisor in the code is a power of two.
  \<open>Math.pow(2, h)\<close> for a whole \<open>h\<close> is the double nearest to the power.
\<close>

fun js_div :: "jsnum \<Rightarrow> jsnum \<Rightarrow> jsnum" where
  "js_div (Num a) (Num b) =
     (if b = 0 then (if a = 0 then NaN else if 0 < a then PosInf else NegInf)
      else to_double (a / b))"
| "js_div NaN _ = NaN"
| "js_div _ NaN = NaN"
| "js_div (Num a) _ = Num 0"
| "js_div PosInf (Num b) = (if b < 0 then NegInf else PosInf)"
| "js_div NegInf (Num b) = (if b < 0 then PosInf else NegInf)"
| "js_div _ _ = NaN"

definition js_pow2 :: "int \<Rightarrow> jsnum" where
  "js_pow2 h = to_double (2 powi h)"

definition getCurrentReward :: "ledger \<Rightarrow> jsnum" where
  "getCurrentReward st =
     (let blockHeight = int (length (chain st)) - 1 in
      if blockHeight = 0 then miningReward
      else let halvings = (blockHeight - 1) div halvingInterval in
           if halvings \<ge> 64 then Num 0
           else js_div miningReward (js_pow2 halvings))"

text \<open>
  \<open>this.balances[address] || 0\<close>, and the two comparisons of a sum with a balance.
\<close>

definition entry_truthy :: "jsval option \<Rightarrow> bool" where
  "entry_truthy v =
     (case v of None \<Rightarrow> False | Some (Number x) \<Rightarrow> js_truthy x | Some Other \<Rightarrow> True)"

definition getBalance :: "ledger \<Rightarrow> string \<Rightarrow> jsval" where
  "getBalance st address =
     (let v = read_entry (balances st) address
      in if entry_truthy v then (case v of Some x \<Rightarrow> x | None \<Rightarrow> Number (Num 0))
         else Number (Num 0))"

fun num_le_val :: "jsnum \<Rightarrow> jsval \<Rightarrow> bool" where
  "num_le_val x (Number b) = js_le x b"
| "num_le_val x Other = False"

fun val_lt_num :: "jsval \<Rightarrow> jsnum \<Rightarrow> bool" where
  "val_lt_num (Number b) x = js_lt b x"
| "val_lt_num Other x = False"

definition isTransactionValid :: "js_env \<Rightarrow> ledger \<Rightarrow> transaction \<Rightarrow> bool" where
  "isTransactionValid env st t =
     (if \<not> tx_isValid env t then False
      else let senderTxs = filter (\<lambda>m. sender m = sender t) (mempool st);
               totalSpending = foldl (\<lambda>sum m. js_add (js_add sum (amount m)) (fee m)) (Num 0) senderTxs;
               senderBalance = getBalance st (sender t)
           in num_le_val (js_add (js_add totalSpending (amount t)) (fee t)) senderBalance)"

datatype add_result =
    Added
  | Invalid_transaction
  | Insufficient_balance jsnum jsval
  | Already_in_mempool

text \<open>The \<open>success\<close> field of the result; the constructors stand for the messages.\<close>

definition success :: "add_result \<Rightarrow> bool" where
  "success r = (r = Added)"

definition addTransactionToMempool :: "js_env \<Rightarrow> ledger \<Rightarrow> transaction \<Rightarrow> add_result \<times> ledger" where
  "addTransactionToMempool env st t =
     (if \<not> isTransactionValid env st t then (Invalid_transaction, st)
      else let senderBalance = getBalance st (sender t);
               totalCost = js_add (amount t) (fee t)
           in if val_lt_num senderBalance totalCost then (Insufficient_balance totalCost senderBalance, st)
              else if list_ex (\<lambda>m. txId m = txId t) (mempool st) then (Already_in_mempool, st)
              else (Added, st\<lparr>mempool := mempool st @ [t]\<rparr>))"

text \<open>
  \<open>updateBalances\<close>. \<open>if (!balances[a]) balances[a] = 0\<close> resets an entry that is
  missing, zero or \<open>NaN\<close> and leaves a truthy one, an inherited one too. Then
  \<open>balances[a] -= x\<close> and \<open>balances[a] += x\<close> read the entry and assign the result;
  \<open>undefined\<close> in arithmetic is \<open>NaN\<close>.
\<close>

definition ensure_entry :: "(string \<times> jsval) list \<Rightarrow> string \<Rightarrow> (string \<times> jsval) list" where
  "ensure_entry bal a =
     (if entry_truthy (read_entry bal a) then bal else write_entry bal a (Number (Num 0)))"

definition val_sub :: "jsval option \<Rightarrow> jsnum \<Rightarrow> jsval" where
  "val_sub v x =
     (case v of None \<Rightarrow> Number NaN | Some (Number n) \<Rightarrow> Number (js_sub n x)
      | Some Other \<Rightarrow> Number NaN)"

definition val_add :: "jsval option \<Rightarrow> jsnum \<Rightarrow> jsval" where
  "val_add v x =
     (case v of None \<Rightarrow> Number NaN | Some (Number n) \<Rightarrow> Number (js_add n x)
      | Some Other \<Rightarrow> Other)"

definition apply_transaction ::
  "string \<Rightarrow> (string \<times> jsval) list \<Rightarrow> transaction \<Rightarrow> (string \<times> jsval) list" where
  "apply_transaction blockMiner bal t =
     (let bal1 = (if is_system_sender (sender t) then bal
                  else let b = ensure_entry bal (sender t)
                       in write_entry b (sender t)
                            (val_sub (read_entry b (sender t)) (js_add (amount t) (fee t))));
          bal2 = (let b = ensure_entry bal1 (receiver t)
                  in write_entry b (receiver t) (val_add (read_entry b (receiver t)) (amount t)))
      in if sender t \<noteq> ''COINBASE'' \<and> blockMiner \<noteq> []
         then let b = ensure_entry bal2 blockMiner
              in write_entry b blockMiner (val_add (read_entry b blockMiner) (fee t))
         else bal2)"

definition apply_block :: "(string \<times> jsval) list \<Rightarrow> block \<Rightarrow> (string \<times> jsval) list" where
  "apply_block bal blk = foldl (apply_transaction (miner blk)) bal (transactions blk)"

definition updateBalances :: "ledger \<Rightarrow> ledger" where
  "updateBalances st = st\<lparr>balances := foldl apply_block [] (chain st)\<rparr>"

definition addBlock :: "js_env \<Rightarrow> ledger \<Rightarrow> block \<Rightarrow> bool \<times> ledger" where
  "addBlock env st newBlock =
     (if block_isValid env newBlock (getLatestBlock st)
      then (True, updateBalances (st\<lparr>chain := chain st @ [newBlock]\<rparr>))
      else (False, st))"

text \<open>
  Eviction after a successful append: for each selected transaction, \<open>findIndex\<close> of the
  first mempool entry with its identifier, and \<open>splice\<close> of that entry.
\<close>

fun findIndex :: "('a \<Rightarrow> bool) \<Rightarrow> 'a list \<Rightarrow> nat option" where
  "findIndex P [] = None"
| "findIndex P (x # xs) = (if P x then Some 0 else map_option Suc (findIndex P xs))"

definition evict :: "transaction list \<Rightarrow> transaction \<Rightarrow> transaction list" where
  "evict pool t =
     (case findIndex (\<lambda>m. txId m = txId t) pool of
        None \<Rightarrow> pool
      | Some i \<Rightarrow> take i pool @ drop (i + 1) pool)"

text \<open>
  \<open>minePendingTransactions\<close>. The two clock readings are arguments (\<open>now1\<close> for the
  coinbase transaction, \<open>now2\<close> for the block). The result is \<open>None\<close> when the nonce
  search never returns. \<open>getLatestBlock().hash\<close> on an empty chain throws; the
  \<open>finally\<close> clause clears the busy flag on every path. Writing the ledger to disk is not
  modelled.
\<close>

datatype mine_result = Mined block | Nothing | Threw_TypeError

definition minePendingTransactions ::
  "js_env \<Rightarrow> int \<Rightarrow> int \<Rightarrow> ledger \<Rightarrow> string \<Rightarrow> bool \<Rightarrow> (mine_result \<times> ledger) option" where
  "minePendingTransactions env now1 now2 st minerAddress forceMine =
     (if mempool st = [] \<and> \<not> forceMine then Some (Nothing, st)
      else if isMining st then Some (Nothing, st)
      else
        let st1 = st\<lparr>isMining := True\<rparr>;
            selectedTransactions = take 10 (mempool st1);
            currentReward = getCurrentReward st1;
            totalFees = foldl (\<lambda>sum t. js_add sum (fee t)) (Num 0) selectedTransactions;
            coinbaseTransaction =
              Transaction_new env now1 ''COINBASE'' minerAddress
                (js_add currentReward totalFees) (Num 0) None
        in case getLatestBlock st1 of
             None \<Rightarrow> Some (Threw_TypeError, st1\<lparr>isMining := False\<rparr>)
           | Some tip \<Rightarrow>
               let constructed = Block_new env now2 (length (chain st1))
                                   (coinbaseTransaction # selectedTransactions)
                                   (Some now2) (hash tip) 0 ledger_difficulty;
                   newBlock = constructed\<lparr>reward := currentReward, miner := minerAddress\<rparr>
               in (case mineBlock env ledger_difficulty minerAddress newBlock of
                     None \<Rightarrow> None
                   | Some mined \<Rightarrow>
                       (let appended = addBlock env st1 (fst mined);
                            st2 = snd appended
                        in if fst appended
                           then Some (Mined (fst mined),
                                      st2\<lparr>mempool := foldl evict (mempool st2) selectedTransactions,
                                          isMining := False\<rparr>)
                           else Some (Nothing, st2\<lparr>isMining := False\<rparr>))))"

text \<open>
  \<open>createGenesisBlock\<close> and the constructor of the ledger, on a host with no stored
  chain (\<open>loadBlockchain\<close> then changes nothing). The genesis block is pushed without
  validation.
\<close>

definition createGenesisBlock :: "js_env \<Rightarrow> int \<Rightarrow> ledger \<Rightarrow> ledger option" where
  "createGenesisBlock env now st =
     (let genesisTransaction =
            Transaction_new env now ''GENESIS'' genesisAddress genesisReward (Num 0)
              (Some 1704067200000);
          genesisBlock =
            Block_new env now 0 [genesisTransaction] (Some 1704067200000)
              (replicate 64 (CHR ''0'')) 0 1
      in case mineBlock env 1 ''GENESIS'' genesisBlock of
           None \<Rightarrow> None
         | Some (mined, miningStats) \<Rightarrow>
             Some ((updateBalances (st\<lparr>chain := chain st @ [mined]\<rparr>))
                     \<lparr>currentSupply := genesisReward\<rparr>))"

definition GSCBlockchain_new :: "js_env \<Rightarrow> int \<Rightarrow> ledger option" where
  "GSCBlockchain_new env now =
     createGenesisBlock env now
       \<lparr>chain = [], mempool = [], balances = [], isMining = False,
        currentSupply = Num 0\<rparr>"

section \<open>The Merkle root in the words of the specification\<close>

text \<open>
  For comparison with \<open>calculateMerkleRoot\<close>: over a digest \<open>H\<close> and a list of
  leaves, hash the concatenation of each adjacent pair, the last hash of a level of odd
  length paired with itself, until a single hash remains; the root of no leaves is the
  digest of the empty string.
\<close>

fun spec_pair_up :: "(string \<Rightarrow> string) \<Rightarrow> string list \<Rightarrow> string list" where
  "spec_pair_up H [] = []"
| "spec_pair_up H [l] = [H (l @ l)]"
| "spec_pair_up H (l # r # rest) = H (l @ r) # spec_pair_up H rest"

function spec_reduce :: "(string \<Rightarrow> string) \<Rightarrow> string list \<Rightarrow> string list" where
  "spec_reduce H hs = (if length hs > 1 then spec_reduce H (spec_pair_up H hs) else hs)"
  by pat_completeness auto
termination
proof (relation "measure (\<lambda>(H, hs). length hs)")
  show "wf (measure (\<lambda>(H :: string \<Rightarrow> string, hs :: string list). length hs))"
    by simp
next
  fix H :: "string \<Rightarrow> string" and hs :: "string list"
  assume long: "1 < length hs"
  have halves: "length (spec_pair_up G xs) = (length xs + 1) div 2" for G xs
    by (induction G xs rule: spec_pair_up.induct) simp_all
  from long show "((H, spec_pair_up H hs), (H, hs)) \<in> measure (\<lambda>(H, hs). length hs)"
    by (simp add: halves)
qed

declare spec_reduce.simps [simp del]

definition spec_merkle_root :: "(string \<Rightarrow> string) \<Rightarrow> string list \<Rightarrow> string" where
  "spec_merkle_root H leaves =
     (if leaves = [] then H []
      else (case spec_reduce H leaves of [] \<Rightarrow> [] | h # _ \<Rightarrow> h))"

section \<open>Admission in the words of the specification\<close>



section \<open>A runtime for running the definitions\<close>

text \<open>
  The theorems below hold for every runtime. To run the definitions on concrete inputs
  this section fixes one: a number is printed as the shortest decimal that reads back as
  the same double (without the exponent notation that JavaScript uses for very large and
  very small numbers), transactions are serialised as JSON objects (strings that need no escapes), and the digest is a stand-in of 64
  characters that answers a text ending in \<open>undefined\<close> with sixty-four \<open>f\<close> and every
  other text with five zeros followed by the end of the text read backwards. With it a
  nonce search at any difficulty up to five ends after at most one step.
\<close>

definition digit :: "int \<Rightarrow> char" where
  "digit n = ''0123456789'' ! nat (n mod 10)"

function show_int :: "int \<Rightarrow> string" where
  "show_int n = (if n < 10 then [digit n] else show_int (n div 10) @ [digit n])"
  by pat_completeness auto
termination
  by (relation "measure nat") auto

declare show_int.simps [simp del]

text \<open>
  The digits after the point of \<open>n / d\<close>, for \<open>0 \<le> n < d\<close>, as many as the first
  argument allows.
\<close>

fun frac_digits :: "nat \<Rightarrow> int \<Rightarrow> int \<Rightarrow> string" where
  "frac_digits 0 n d = []"
| "frac_digits (Suc k) n d =
     (if n = 0 then [] else digit (n * 10 div d) # frac_digits k (n * 10 mod d) d)"

text \<open>
  The least number \<open>k\<close> of digits after the point, from \<open>k\<close> on, with which the nearest
  decimal \<open>m / 10 ^ k\<close> reads back as the double \<open>p / q\<close>; the search gives up after the
  number of steps of the first argument.
\<close>

fun shortest_decimal :: "nat \<Rightarrow> nat \<Rightarrow> int \<Rightarrow> int \<Rightarrow> nat \<times> int" where
  "shortest_decimal 0 k p q = (k, round_half_even (p * 10 ^ k) q)"
| "shortest_decimal (Suc n) k p q =
     (let m = round_half_even (p * 10 ^ k) q
      in if to_double (of_int m / 10 ^ k) = Num (of_int p / of_int q) then (k, m)
         else shortest_decimal n (Suc k) p q)"

text \<open>The text of \<open>p / q\<close>, for \<open>0 \<le> p\<close> and \<open>0 < q\<close>.\<close>

definition show_fraction :: "int \<Rightarrow> int \<Rightarrow> string" where
  "show_fraction p q =
     (if p mod q = 0 then show_int (p div q)
      else case shortest_decimal 400 1 p q of
             (k, m) \<Rightarrow> show_int (m div 10 ^ k) @ ''.'' @ frac_digits k (m mod 10 ^ k) (10 ^ k))"

definition sample_num_to_string :: "jsnum \<Rightarrow> string" where
  "sample_num_to_string v =
     (case v of
        NaN \<Rightarrow> ''NaN''
      | PosInf \<Rightarrow> ''Infinity''
      | NegInf \<Rightarrow> ''-Infinity''
      | Num r \<Rightarrow>
          (case quotient_of r of
             (p, q) \<Rightarrow> (if p < 0 then ''-'' else []) @ show_fraction \<bar>p\<bar> q))"

definition dq :: string where
  "dq = [CHR 0x22]"

definition json_string :: "string \<Rightarrow> string" where
  "json_string s = dq @ s @ dq"

definition json_number :: "jsnum \<Rightarrow> string" where
  "json_number v = (case v of Num r \<Rightarrow> sample_num_to_string v | _ \<Rightarrow> ''null'')"

definition json_transaction :: "transaction \<Rightarrow> string" where
  "json_transaction t =
     ''{'' @ json_string ''sender'' @ '':'' @ json_string (sender t)
     @ '','' @ json_string ''receiver'' @ '':'' @ json_string (receiver t)
     @ '','' @ json_string ''amount'' @ '':'' @ json_number (amount t)
     @ '','' @ json_string ''fee'' @ '':'' @ json_number (fee t)
     @ '','' @ json_string ''timestamp'' @ '':'' @ show_int (timestamp t)
     @ '','' @ json_string ''signature'' @ '':'' @ json_string (signature t)
     @ '','' @ json_string ''txId'' @ '':'' @ json_string (txId t) @ ''}''"

fun join_comma :: "string list \<Rightarrow> string" where
  "join_comma [] = []"
| "join_comma [x] = x"
| "join_comma (x # y # ys) = x @ '','' @ join_comma (y # ys)"

definition sample_json_stringify :: "transaction list \<Rightarrow> string" where
  "sample_json_stringify txs = ''['' @ join_comma (map json_transaction txs) @ '']''"

definition sample_sha256 :: "string \<Rightarrow> string" where
  "sample_sha256 s =
     (if take 9 (rev s) = rev ''undefined'' then replicate 64 (CHR ''f'')
      else ''00000'' @ take 59 (rev s @ replicate 59 (CHR ''a'')))"

definition sample_env :: js_env where
  "sample_env = \<lparr>sha256 = sample_sha256, num_to_string = sample_num_to_string,
                  json_stringify = sample_json_stringify\<rparr>"

section \<open>Sample values\<close>

text \<open>
  A fresh ledger, one submitted transfer of 10 with fee 0.1 from the genesis address to
  \<open>GSCX\<close>, and the block that \<open>GSCM\<close> mines from it.
\<close>

definition sample_genesis_transaction :: transaction where
  "sample_genesis_transaction =
     Transaction_new sample_env 1704067200001 ''GENESIS'' genesisAddress genesisReward (Num 0)
       (Some 1704067200000)"

definition sample_genesis :: block where
  "sample_genesis =
     next_nonce sample_env
       ((Block_new sample_env 1704067200001 0 [sample_genesis_transaction]
           (Some 1704067200000) (replicate 64 (CHR ''0'')) 0 1)\<lparr>miner := ''GENESIS''\<rparr>)"

definition sample_ledger0 :: ledger where
  "sample_ledger0 =
     (updateBalances \<lparr>chain = [sample_genesis], mempool = [], balances = [],
                      isMining = False, currentSupply = Num 0\<rparr>)
       \<lparr>currentSupply := genesisReward\<rparr>"

definition sample_tx :: transaction where
  "sample_tx =
     Transaction_new sample_env 1704067200002 genesisAddress ''GSCX'' (Num 10) (Num (1 / 10)) None"

definition sample_ledger1 :: ledger where
  "sample_ledger1 = sample_ledger0\<lparr>mempool := [sample_tx]\<rparr>"

definition sample_coinbase :: transaction where
  "sample_coinbase =
     Transaction_new sample_env 1704067200003 ''COINBASE'' ''GSCM'' (Num (501 / 10)) (Num 0) None"

definition sample_constructed :: block where
  "sample_constructed =
     Block_new sample_env 1704067200004 1 [sample_coinbase, sample_tx]
       (Some 1704067200004) (hash sample_genesis) 0 5"

definition sample_candidate :: block where
  "sample_candidate = sample_constructed\<lparr>reward := Num 50, miner := ''GSCM''\<rparr>"

definition sample_block1 :: block where
  "sample_block1 = next_nonce sample_env sample_candidate"

definition sample_stats :: mining_stats where
  "sample_stats = \<lparr>stat_nonce = 1, stat_hash = hash sample_block1\<rparr>"

definition sample_ledger2 :: ledger where
  "sample_ledger2 =
     (updateBalances (sample_ledger1\<lparr>chain := [sample_genesis, sample_block1]\<rparr>))
       \<lparr>mempool := []\<rparr>"

text \<open>A copy of the mined block whose stored hash was replaced, as a stored chain may hold.\<close>

definition sample_tampered :: block where
  "sample_tampered = sample_block1\<lparr>hash := replicate 64 (CHR ''0'')\<rparr>"

definition sample_tampered_stats :: mining_stats where
  "sample_tampered_stats = \<lparr>stat_nonce = 1, stat_hash = replicate 64 (CHR ''0'')\<rparr>"

text \<open>A transaction restored from a record without identifier, and a block holding it.\<close>

definition sample_unidentified :: transaction where
  "sample_unidentified = sample_tx\<lparr>txId := []\<rparr>"

definition sample_unidentified_block :: block where
  "sample_unidentified_block =
     Block_new sample_env 1704067200004 1 [sample_unidentified]
       (Some 1704067200004) (hash sample_genesis) 0 5"

text \<open>Two transfers of the genesis address that its balance of 255 covers one at a time.\<close>

definition sample_spend_a :: transaction where
  "sample_spend_a =
     Transaction_new sample_env 1704067200005 genesisAddress ''GSCX'' (Num 200) (Num (1 / 10)) None"

definition sample_spend_b :: transaction where
  "sample_spend_b =
     Transaction_new sample_env 1704067200006 genesisAddress ''GSCY'' (Num 100) (Num (1 / 10)) None"

text \<open>
  Transfers for the admission check at the edge of the balance: 250 with fee 5, which
  costs the whole balance of 255; one of \<open>1e-14\<close> with fee \<open>1e-14\<close>; one of 100 with
  fee 0.1 that is already pending; one without receiver; and a queued transaction of
  another sender that carries the identifier of \<open>sample_spend_a\<close>.
\<close>

definition sample_spend_all :: transaction where
  "sample_spend_all =
     Transaction_new sample_env 1704067200007 genesisAddress ''GSCX'' (Num 250) (Num 5) None"

definition sample_spend_tiny :: transaction where
  "sample_spend_tiny =
     Transaction_new sample_env 1704067200008 genesisAddress ''GSCY''
       (Num (1 / 100000000000000)) (Num (1 / 100000000000000)) None"

definition sample_pending :: transaction where
  "sample_pending =
     Transaction_new sample_env 1704067200009 genesisAddress ''GSCZ'' (Num 100) (Num (1 / 10)) None"

definition sample_no_receiver :: transaction where
  "sample_no_receiver =
     Transaction_new sample_env 1704067200010 genesisAddress [] (Num 200) (Num (1 / 10)) None"


section \<open>Double arithmetic at known values\<close>

text \<open>
  The double of 0.1; \<open>0.1 + 0.2\<close> is \<open>0.30000000000000004\<close> and not the double of
  0.3; \<open>2 ^ 53 + 1\<close> rounds to \<open>2 ^ 53\<close>; \<open>255 - 10.1\<close> is the double of 244.9 and
  \<open>50 + 0.1 + 0.1\<close> the double of 50.2.
\<close>

lemma to_double_known_values:
  "to_double (1 / 10) = Num (3602879701896397 / 36028797018963968)"
  "js_add (to_double (1 / 10)) (to_double (2 / 10)) = Num (1351079888211149 / 4503599627370496)"
  "js_add (to_double (1 / 10)) (to_double (2 / 10)) \<noteq> to_double (3 / 10)"
  "to_double 9007199254740993 = Num 9007199254740992"
  "js_sub (Num 255) (to_double (101 / 10)) = to_double (2449 / 10)"
  "js_add (js_add (Num 50) (to_double (1 / 10))) (to_double (1 / 10)) = to_double (502 / 10)"
  by code_simp+

section \<open>Values of the samples\<close>

text \<open>
  What the sample definitions evaluate to at the sample runtime. Later evaluations start
  from these values.
\<close>

lemma sample_genesis_transaction_value [code]:
  "sample_genesis_transaction =
     \<lparr>sender = ''GENESIS'', receiver = genesisAddress, amount = Num 255,
      fee = Num 0, timestamp = 1704067200000, signature = [],
      txId = ''000000000027604071055272693f074d3bf5ca32fe12356e1465071CSGSISENE''\<rparr>"
  by code_simp

lemma sample_genesis_value [code]:
  "sample_genesis =
     \<lparr>index = 0, blk_timestamp = 1704067200000, transactions = [sample_genesis_transaction],
      previousHash = replicate 64 (CHR ''0''), nonce = 1, difficulty = 1,
      hash = ''00000ENESISGSC1705641e65321ef23ac5fb3d470f3962725501704067200000'',
      merkleRoot = Some ''000000000027604071055272693f074d3bf5ca32fe12356e1465071CSGSISENE'',
      miner = ''GENESIS'', reward = Num 0\<rparr>"
  by code_simp

lemma sample_ledger0_value [code]:
  "sample_ledger0 =
     \<lparr>chain = [sample_genesis], mempool = [],
      balances = [(genesisAddress, Number (Num 255)), (''GENESIS'', Number (Num 0))],
      isMining = False, currentSupply = Num 255\<rparr>"
  by code_simp

lemma sample_tx_value [code]:
  "sample_tx =
     \<lparr>sender = genesisAddress, receiver = ''GSCX'', amount = Num 10,
      fee = Num (3602879701896397 / 36028797018963968), timestamp = 1704067200002, signature = [],
      txId = ''0000020000276040711.001XCSG72693f074d3bf5ca32fe12356e1465071CSGa''\<rparr>"
  by code_simp

lemma sample_coinbase_value [code]:
  "sample_coinbase =
     \<lparr>sender = ''COINBASE'', receiver = ''GSCM'', amount = Num (7050948166601933 / 140737488355328),
      fee = Num 0, timestamp = 1704067200003, signature = [],
      txId = ''00000300002760407101.05MCSGESABNIOCaaaaaaaaaaaaaaaaaaaaaaaaaaaaa''\<rparr>"
  by code_simp

lemma sample_constructed_value [code]:
  "sample_constructed =
     \<lparr>index = 1, blk_timestamp = 1704067200004, transactions = [sample_coinbase, sample_tx],
      previousHash = ''00000ENESISGSC1705641e65321ef23ac5fb3d470f3962725501704067200000'',
      nonce = 0, difficulty = 5, hash = replicate 64 (CHR ''f''),
      merkleRoot = Some ''00000aGSC1705641e65321ef23ac5fb3d470f39627GSCX100.11704067200002'',
      miner = [], reward = Num 0\<rparr>"
  by code_simp

lemma sample_block1_value [code]:
  "sample_block1 =
     \<lparr>index = 1, blk_timestamp = 1704067200004, transactions = [sample_coinbase, sample_tx],
      previousHash = ''00000ENESISGSC1705641e65321ef23ac5fb3d470f3962725501704067200000'',
      nonce = 1, difficulty = 5,
      hash = ''0000020000276040711.001XCSG72693f074d3bf5ca32fe12356e1465071CSGa'',
      merkleRoot = Some ''00000aGSC1705641e65321ef23ac5fb3d470f39627GSCX100.11704067200002'',
      miner = ''GSCM'', reward = Num 50\<rparr>"
  by code_simp

lemma sample_ledger2_value [code]:
  "sample_ledger2 =
     \<lparr>chain = [sample_genesis, sample_block1], mempool = [],
      balances = [(genesisAddress, Number (Num (8616652724554957 / 35184372088832))),
                  (''GENESIS'', Number (Num 0)),
                  (''GSCM'', Number (Num (3532510957718733 / 70368744177664))),
                  (''GSCX'', Number (Num 10))],
      isMining = False, currentSupply = Num 255\<rparr>"
  by code_simp

lemma sample_spend_a_value [code]:
  "sample_spend_a =
     \<lparr>sender = genesisAddress, receiver = ''GSCX'', amount = Num 200,
      fee = Num (3602879701896397 / 36028797018963968), timestamp = 1704067200005, signature = [],
      txId = ''0000050000276040711.0002XCSG72693f074d3bf5ca32fe12356e1465071CSG''\<rparr>"
  by code_simp

lemma sample_spend_b_value [code]:
  "sample_spend_b =
     \<lparr>sender = genesisAddress, receiver = ''GSCY'', amount = Num 100,
      fee = Num (3602879701896397 / 36028797018963968), timestamp = 1704067200006, signature = [],
      txId = ''0000060000276040711.0001YCSG72693f074d3bf5ca32fe12356e1465071CSG''\<rparr>"
  by code_simp

lemma sample_spend_all_value [code]:
  "sample_spend_all =
     \<lparr>sender = genesisAddress, receiver = ''GSCX'', amount = Num 250,
      fee = Num 5, timestamp = 1704067200007, signature = [],
      txId = ''0000070000276040715052XCSG72693f074d3bf5ca32fe12356e1465071CSGaa''\<rparr>"
  by code_simp

lemma sample_spend_tiny_value [code]:
  "sample_spend_tiny =
     \<lparr>sender = genesisAddress, receiver = ''GSCY'', amount = Num (6338253001141147 / 633825300114114700748351602688),
      fee = Num (6338253001141147 / 633825300114114700748351602688), timestamp = 1704067200008, signature = [],
      txId = ''00000800002760407110000000000000.010000000000000.0YCSG72693f074d''\<rparr>"
  by code_simp

lemma sample_pending_value [code]:
  "sample_pending =
     \<lparr>sender = genesisAddress, receiver = ''GSCZ'', amount = Num 100,
      fee = Num (3602879701896397 / 36028797018963968), timestamp = 1704067200009, signature = [],
      txId = ''0000090000276040711.0001ZCSG72693f074d3bf5ca32fe12356e1465071CSG''\<rparr>"
  by code_simp

lemma sample_no_receiver_value [code]:
  "sample_no_receiver =
     \<lparr>sender = genesisAddress, receiver = [], amount = Num 200,
      fee = Num (3602879701896397 / 36028797018963968), timestamp = 1704067200010, signature = [],
      txId = ''0000001000276040711.000272693f074d3bf5ca32fe12356e1465071CSGaaaa''\<rparr>"
  by code_simp

section \<open>Properties of the nonce search\<close>

lemma hash_meets_iff_leading_zeros:
  "hash_meets d h \<longleftrightarrow> d \<le> length (takeWhile (\<lambda>c. c = CHR ''0'') h)"
  unfolding hash_meets_def
proof (induction h arbitrary: d)
  case Nil
  then show ?case by auto
next
  case (Cons x xs)
  then show ?case by (cases d) auto
qed

lemma block_calculateHash_ignores [simp]:
  "block_calculateHash env (b\<lparr>hash := h\<rparr>) = block_calculateHash env b"
  "block_calculateHash env (b\<lparr>miner := m\<rparr>) = block_calculateHash env b"
  "block_calculateHash env (b\<lparr>reward := r\<rparr>) = block_calculateHash env b"
  by (simp_all add: block_calculateHash_def)

lemma next_nonce_hash: "hash (next_nonce env b) = block_calculateHash env (next_nonce env b)"
  by (simp add: next_nonce_def Let_def)

lemma mine_loop_meets:
  assumes "mine_loop env d b = Some b'"
  shows "hash_meets d (hash b')"
  using assms
  by (induction rule: mine_loop.raw_induct[rotated 1, consumes 1]) (auto split: if_splits)

lemma mine_loop_shape:
  assumes "mine_loop env d b = Some b'"
  shows "\<exists>n h. b' = b\<lparr>nonce := n, hash := h\<rparr>"
  using assms
proof (induction rule: mine_loop.raw_induct[rotated 1, consumes 1])
  case (1 mine_loop env d b b')
  show ?case
  proof (cases "hash_meets d (hash b)")
    case True
    with 1(2) have "b' = b" by simp
    then have "b' = b\<lparr>nonce := nonce b, hash := hash b\<rparr>" by simp
    then show ?thesis by blast
  next
    case False
    with 1(2) have "mine_loop env d (next_nonce env b) = Some b'" by simp
    from 1(1)[OF this] obtain n h where "b' = (next_nonce env b)\<lparr>nonce := n, hash := h\<rparr>" by blast
    then have "b' = b\<lparr>nonce := n, hash := h\<rparr>" by (simp add: next_nonce_def Let_def)
    then show ?thesis by blast
  qed
qed

lemma mine_loop_consistent:
  assumes "mine_loop env d b = Some b'"
    and "hash b = block_calculateHash env b \<or> \<not> hash_meets d (hash b)"
  shows "hash b' = block_calculateHash env b'"
  using assms
proof (induction rule: mine_loop.raw_induct[rotated 1, consumes 1])
  case (1 mine_loop env d b b')
  show ?case
  proof (cases "hash_meets d (hash b)")
    case True
    with 1(2) have "b' = b" by simp
    with True 1(3) show ?thesis by simp
  next
    case False
    with 1(2) have "mine_loop env d (next_nonce env b) = Some b'" by simp
    from 1(1)[OF this] show ?thesis by (simp add: next_nonce_hash)
  qed
qed

text \<open>
  The search returns when some number of further nonces leads to a hash that meets the
  target.
\<close>

lemma mine_loop_returns:
  "hash_meets d (hash ((next_nonce env ^^ k) b)) \<Longrightarrow> \<exists>b'. mine_loop env d b = Some b'"
proof (induction k arbitrary: b)
  case 0
  then show ?case by (simp add: mine_loop.simps)
next
  case (Suc k)
  show ?case
  proof (cases "hash_meets d (hash b)")
    case True
    then show ?thesis by (simp add: mine_loop.simps)
  next
    case False
    from Suc.prems have "hash_meets d (hash ((next_nonce env ^^ k) (next_nonce env b)))"
      by (simp add: funpow_swap1)
    from Suc.IH[OF this] obtain b' where "mine_loop env d (next_nonce env b) = Some b'" by blast
    with False show ?thesis by (subst mine_loop.simps) simp
  qed
qed

lemma mineBlock_returns:
  assumes "hash_meets d (hash ((next_nonce env ^^ k) (b\<lparr>miner := minerAddress\<rparr>)))"
  shows "\<exists>b' stats. mineBlock env d minerAddress b = Some (b', stats)"
proof -
  from mine_loop_returns[OF assms] obtain b' where
    "mine_loop env d (b\<lparr>miner := minerAddress\<rparr>) = Some b'" by blast
  then show ?thesis by (simp add: mineBlock_def)
qed

lemma evict_head: "evict (x # xs) x = xs"
  by (simp add: evict_def)

lemma foldl_evict_prefix: "foldl evict xs (take k xs) = drop k xs"
proof (induction xs arbitrary: k)
  case Nil
  then show ?case by simp
next
  case (Cons x xs)
  then show ?case by (cases k) (simp_all add: evict_head)
qed

text \<open>
  Claim C4, as amended. When \<open>mineBlock\<close> returns, the hash of the block starts with
  at least \<open>d\<close> zeros, the returned record carries the nonce and hash of the block, and
  the miner is recorded. The hash equals the recomputation from the block's fields when
  the stored hash did so before the call or did not yet meet the target, so that the
  search tried at least one nonce.
\<close>

theorem mineBlock_postcondition:
  assumes "mineBlock env d minerAddress b = Some (b', stats)"
  shows "d \<le> length (takeWhile (\<lambda>c. c = CHR ''0'') (hash b'))
         \<and> stat_nonce stats = nonce b' \<and> stat_hash stats = hash b'
         \<and> miner b' = minerAddress
         \<and> (hash b = block_calculateHash env b
              \<or> length (takeWhile (\<lambda>c. c = CHR ''0'') (hash b)) < d
            \<longrightarrow> hash b' = block_calculateHash env b')"
proof -
  from assms have loop: "mine_loop env d (b\<lparr>miner := minerAddress\<rparr>) = Some b'"
    and stats: "stats = \<lparr>stat_nonce = nonce b', stat_hash = hash b'\<rparr>"
    by (auto simp: mineBlock_def split: option.splits)
  from mine_loop_meets[OF loop] have zeros: "d \<le> length (takeWhile (\<lambda>c. c = CHR ''0'') (hash b'))"
    by (simp add: hash_meets_iff_leading_zeros)
  from mine_loop_shape[OF loop] have who: "miner b' = minerAddress"
    by auto
  have fresh: "hash b' = block_calculateHash env b'"
    if "hash b = block_calculateHash env b \<or> length (takeWhile (\<lambda>c. c = CHR ''0'') (hash b)) < d"
  proof -
    from that have "hash (b\<lparr>miner := minerAddress\<rparr>) = block_calculateHash env (b\<lparr>miner := minerAddress\<rparr>)
                    \<or> \<not> hash_meets d (hash (b\<lparr>miner := minerAddress\<rparr>))"
      by (auto simp: hash_meets_iff_leading_zeros)
    from mine_loop_consistent[OF loop this] show ?thesis .
  qed
  from zeros stats who fresh show ?thesis by simp
qed

text \<open>The theorem at the sample candidate block, mined at difficulty 5.\<close>

theorem mineBlock_postcondition_witness:
  "mineBlock sample_env 5 ''GSCM'' sample_candidate = Some (sample_block1, sample_stats)
   \<and> length (takeWhile (\<lambda>c. c = CHR ''0'') (hash sample_candidate)) < 5
   \<and> 5 \<le> length (takeWhile (\<lambda>c. c = CHR ''0'') (hash sample_block1))
   \<and> hash sample_block1 = block_calculateHash sample_env sample_block1
   \<and> stat_nonce sample_stats = nonce sample_block1
   \<and> miner sample_block1 = ''GSCM''"
proof -
  have run: "mineBlock sample_env 5 ''GSCM'' sample_candidate = Some (sample_block1, sample_stats)"
    by code_simp
  have stale: "length (takeWhile (\<lambda>c. c = CHR ''0'') (hash sample_candidate)) < 5"
    by code_simp
  from mineBlock_postcondition[OF run] stale run show ?thesis by blast
qed

text \<open>
  Claim C4 as stated fails on a block whose stored hash already meets the target and is
  not the hash of its fields: the search returns at once and leaves the hash as it is.
\<close>

theorem mineBlock_stale_hash_counterexample:
  "mineBlock sample_env 5 ''GSCM'' sample_tampered = Some (sample_tampered, sample_tampered_stats)
   \<and> hash sample_tampered \<noteq> block_calculateHash sample_env sample_tampered"
  by code_simp

section \<open>Construction of a block\<close>

text \<open>
  Claim C3 at the code. The constructor computes the hash first, over the text
  \<open>undefined\<close> in place of the Merkle root, and the Merkle root after it; at the sample
  block the stored hash of the new block differs from the recomputation over its fields.
\<close>

theorem Block_new_hash_precedes_merkleRoot:
  "hash (Block_new env now i txs ts prev n d)
     = sha256 env (nat_to_string env i @ prev @ int_to_string env (or_now ts now)
                   @ json_stringify env txs @ nat_to_string env n @ ''undefined'')
   \<and> hash sample_constructed \<noteq> block_calculateHash sample_env sample_constructed"
proof
  show "hash (Block_new env now i txs ts prev n d)
     = sha256 env (nat_to_string env i @ prev @ int_to_string env (or_now ts now)
                   @ json_stringify env txs @ nat_to_string env n @ ''undefined'')"
    by (simp add: Block_new_def Let_def block_calculateHash_def undefined_or_def)
  show "hash sample_constructed \<noteq> block_calculateHash sample_env sample_constructed"
    by code_simp
qed

section \<open>The Merkle root\<close>

lemma merkle_level_nonempty_digests:
  "\<forall>s. sha256 env s \<noteq> [] \<Longrightarrow> list_all (\<lambda>h. h \<noteq> []) (merkle_level env hs)"
  by (induction env hs rule: merkle_level.induct) simp_all

lemma merkle_level_is_pair_up:
  "list_all (\<lambda>h. h \<noteq> []) hs \<Longrightarrow> merkle_level env hs = spec_pair_up (sha256 env) hs"
  by (induction env hs rule: merkle_level.induct) simp_all

lemma merkle_loop_is_reduce:
  "(\<forall>s. sha256 env s \<noteq> []) \<Longrightarrow> list_all (\<lambda>h. h \<noteq> []) hs
   \<Longrightarrow> merkle_loop env hs = spec_reduce (sha256 env) hs"
proof (induction env hs rule: merkle_loop.induct)
  case (1 env hs)
  show ?case
  proof (cases "1 < length hs")
    case True
    have "merkle_loop env hs = merkle_loop env (merkle_level env hs)"
      using True by (subst merkle_loop.simps) simp
    also have "\<dots> = spec_reduce (sha256 env) (merkle_level env hs)"
      using "1.IH"[OF True "1.prems"(1)] merkle_level_nonempty_digests[OF "1.prems"(1)] by simp
    also have "\<dots> = spec_reduce (sha256 env) (spec_pair_up (sha256 env) hs)"
      using merkle_level_is_pair_up[OF "1.prems"(2)] by simp
    also have "\<dots> = spec_reduce (sha256 env) hs"
      using True by (subst (2) spec_reduce.simps) simp
    finally show ?thesis .
  next
    case False
    then show ?thesis
      by (subst merkle_loop.simps, subst spec_reduce.simps) simp
  qed
qed

lemma merkle_leaf_nonempty:
  "\<forall>s. sha256 env s \<noteq> [] \<Longrightarrow> list_all (\<lambda>h. h \<noteq> []) (map (merkle_leaf env) txs)"
  by (induction txs) (simp_all add: merkle_leaf_def tx_calculateHash_def)

lemma calculateMerkleRoot_ignores [simp]:
  "calculateMerkleRoot env (b\<lparr>hash := h\<rparr>) = calculateMerkleRoot env b"
  "calculateMerkleRoot env (b\<lparr>nonce := n\<rparr>) = calculateMerkleRoot env b"
  "calculateMerkleRoot env (b\<lparr>miner := m\<rparr>) = calculateMerkleRoot env b"
  "calculateMerkleRoot env (b\<lparr>reward := r\<rparr>) = calculateMerkleRoot env b"
  "calculateMerkleRoot env (b\<lparr>merkleRoot := mr\<rparr>) = calculateMerkleRoot env b"
  by (simp_all add: calculateMerkleRoot_def)

lemma spec_pair_up_length: "length (spec_pair_up H hs) = (length hs + 1) div 2"
  by (induction H hs rule: spec_pair_up.induct) simp_all

lemma spec_reduce_nonempty: "hs \<noteq> [] \<Longrightarrow> spec_reduce H hs \<noteq> []"
proof (induction H hs rule: spec_reduce.induct)
  case (1 H hs)
  show ?case
  proof (cases "1 < length hs")
    case True
    then have "0 < length (spec_pair_up H hs)" by (simp add: spec_pair_up_length)
    then have "spec_pair_up H hs \<noteq> []" by auto
    with 1 True show ?thesis by (subst spec_reduce.simps) simp
  next
    case False
    with 1 show ?thesis by (subst spec_reduce.simps) simp
  qed
qed

text \<open>
  Claim C9, as amended. When no digest is the empty string (a SHA-256 hex digest has 64
  characters), the Merkle root of a block is the root in the words of the specification
  over the leaves \<open>tx.txId || tx.calculateHash()\<close>: the identifier of each
  transaction, or its recomputed content hash where the stored identifier is empty. The
  root of a block without transactions is the digest of the empty string, and the
  constructor stores the root of the transactions it is given.
\<close>

theorem calculateMerkleRoot_refines_spec:
  assumes "\<forall>s. sha256 env s \<noteq> []"
  shows "calculateMerkleRoot env b
           = Some (spec_merkle_root (sha256 env) (map (merkle_leaf env) (transactions b)))
         \<and> (transactions b = [] \<longrightarrow> calculateMerkleRoot env b = Some (sha256 env []))
         \<and> merkleRoot (Block_new env now i txs ts prev n d)
             = Some (spec_merkle_root (sha256 env) (map (merkle_leaf env) txs))"
proof -
  have root: "calculateMerkleRoot env c
           = Some (spec_merkle_root (sha256 env) (map (merkle_leaf env) (transactions c)))" for c
  proof (cases "transactions c = []")
    case True
    then show ?thesis by (simp add: calculateMerkleRoot_def spec_merkle_root_def)
  next
    case False
    then have "spec_reduce (sha256 env) (map (merkle_leaf env) (transactions c)) \<noteq> []"
      by (simp add: spec_reduce_nonempty)
    with False show ?thesis
      by (simp add: calculateMerkleRoot_def spec_merkle_root_def
            merkle_loop_is_reduce[OF assms merkle_leaf_nonempty[OF assms]]
          split: list.splits)
  qed
  have empty: "transactions b = [] \<longrightarrow> calculateMerkleRoot env b = Some (sha256 env [])"
    by (simp add: calculateMerkleRoot_def)
  have stored: "merkleRoot (Block_new env now i txs ts prev n d)
          = calculateMerkleRoot env (Block_new env now i txs ts prev n d)"
    by (simp add: Block_new_def Let_def calculateMerkleRoot_def)
  have "transactions (Block_new env now i txs ts prev n d) = txs"
    by (simp add: Block_new_def Let_def)
  with stored root[of "Block_new env now i txs ts prev n d"]
  have "merkleRoot (Block_new env now i txs ts prev n d)
             = Some (spec_merkle_root (sha256 env) (map (merkle_leaf env) txs))"
    by simp
  with root[of b] empty show ?thesis by blast
qed

text \<open>The theorem at the sample runtime and the mined sample block of two transactions.\<close>

theorem calculateMerkleRoot_refines_spec_witness:
  "(\<forall>s. sha256 sample_env s \<noteq> [])
   \<and> calculateMerkleRoot sample_env sample_block1
       = Some (spec_merkle_root (sha256 sample_env) (map (merkle_leaf sample_env) (transactions sample_block1)))
   \<and> transactions sample_block1 = [sample_coinbase, sample_tx]"
proof -
  have digests: "\<forall>s. sha256 sample_env s \<noteq> []"
    by (simp add: sample_env_def sample_sha256_def)
  have txs: "transactions sample_block1 = [sample_coinbase, sample_tx]"
    by (simp add: sample_block1_def sample_candidate_def sample_constructed_def
          next_nonce_def Block_new_def Let_def)
  from calculateMerkleRoot_refines_spec[OF digests, of sample_block1] digests txs
  show ?thesis by blast
qed

text \<open>
  Claim C9 as stated, with the stored identifiers as leaves, fails on a block whose
  transaction has an empty identifier: the code hashes the transaction again.
\<close>

theorem merkle_leaf_fallback_counterexample:
  "calculateMerkleRoot sample_env sample_unidentified_block
     \<noteq> Some (spec_merkle_root (sha256 sample_env) (map txId (transactions sample_unidentified_block)))"
  by code_simp

section \<open>The sample run\<close>

text \<open>
  At the sample runtime the constructor of the ledger, the submission of the sample
  transaction and the mining of the next block return the sample values.
\<close>

lemma sample_run_genesis: "GSCBlockchain_new sample_env 1704067200001 = Some sample_ledger0"
  by code_simp

lemma sample_run_submit:
  "addTransactionToMempool sample_env sample_ledger0 sample_tx = (Added, sample_ledger1)"
  by code_simp

lemma sample_run_mine:
  "minePendingTransactions sample_env 1704067200003 1704067200004 sample_ledger1 ''GSCM'' False
     = Some (Mined sample_block1, sample_ledger2)"
  by code_simp

section \<open>Appending a block\<close>

text \<open>
  Claim C7. A block that fails \<open>isValid\<close> against the tip is rejected and the ledger is
  returned as it was: chain, mempool and balance table. A block that passes is pushed onto
  the chain and the balance table is computed anew from the empty table over the whole
  chain; nothing else changes.
\<close>

theorem addBlock_atomic:
  "(\<not> block_isValid env b (getLatestBlock st) \<longrightarrow> addBlock env st b = (False, st))
   \<and> (block_isValid env b (getLatestBlock st) \<longrightarrow>
        addBlock env st b
          = (True, st\<lparr>chain := chain st @ [b],
                      balances := foldl apply_block [] (chain st @ [b])\<rparr>))"
  by (simp add: addBlock_def updateBalances_def)

text \<open>
  Both cases at the sample ledger: the tampered block is rejected, the mined block is
  appended.
\<close>

theorem addBlock_atomic_witness:
  "\<not> block_isValid sample_env sample_tampered (getLatestBlock sample_ledger1)
   \<and> addBlock sample_env sample_ledger1 sample_tampered = (False, sample_ledger1)
   \<and> block_isValid sample_env sample_block1 (getLatestBlock sample_ledger1)
   \<and> addBlock sample_env sample_ledger1 sample_block1
       = (True, sample_ledger1\<lparr>chain := chain sample_ledger1 @ [sample_block1],
                 balances := foldl apply_block [] (chain sample_ledger1 @ [sample_block1])\<rparr>)
   \<and> length (chain sample_ledger1) = 1"
proof -
  have bad: "\<not> block_isValid sample_env sample_tampered (getLatestBlock sample_ledger1)"
    by code_simp
  have good: "block_isValid sample_env sample_block1 (getLatestBlock sample_ledger1)"
    by code_simp
  have len: "length (chain sample_ledger1) = 1"
    by code_simp
  from addBlock_atomic[of sample_env sample_tampered sample_ledger1]
       addBlock_atomic[of sample_env sample_block1 sample_ledger1] bad good len
  show ?thesis by blast
qed

section \<open>Mining the next block\<close>

lemma addBlock_frame:
  "addBlock env st b = (ok, st') \<Longrightarrow> mempool st' = mempool st \<and> isMining st' = isMining st"
  by (auto simp: addBlock_def updateBalances_def split: if_splits)

lemma addBlock_fails: "addBlock env st b = (False, st') \<Longrightarrow> st' = st"
  by (auto simp: addBlock_def split: if_splits)

lemma addBlock_succeeds: "addBlock env st b = (True, st') \<Longrightarrow> chain st' = chain st @ [b]"
  by (auto simp: addBlock_def updateBalances_def split: if_splits)

lemma mineBlock_shape:
  assumes "mineBlock env d m b = Some (b', stats)"
  shows "\<exists>n h. b' = b\<lparr>miner := m, nonce := n, hash := h\<rparr>"
proof -
  from assms have "mine_loop env d (b\<lparr>miner := m\<rparr>) = Some b'"
    by (auto simp: mineBlock_def split: option.splits)
  from mine_loop_shape[OF this] show ?thesis by simp
qed

lemma busy_flag_restored: "\<not> isMining st \<Longrightarrow> st\<lparr>isMining := True\<rparr>\<lparr>isMining := False\<rparr> = st"
  by (cases st) simp

text \<open>
  Claim C8. When \<open>minePendingTransactions\<close> returns a block, the mempool has lost
  exactly its first ten entries (all of them when there are fewer), which are the
  transactions of the block after the coinbase transaction, and keeps every other entry
  in order; the block is the new tip. When it returns nothing, or the chain is empty and
  reading the tip throws, the ledger is as it was before the call.
\<close>

theorem minePendingTransactions_mempool:
  assumes "minePendingTransactions env now1 now2 st minerAddress forceMine = Some (r, st')"
  shows "case r of
           Mined blk \<Rightarrow>
             mempool st' = drop 10 (mempool st)
             \<and> tl (transactions blk) = take 10 (mempool st)
             \<and> mempool st = tl (transactions blk) @ mempool st'
             \<and> chain st' = chain st @ [blk]
         | Nothing \<Rightarrow> st' = st
         | Threw_TypeError \<Rightarrow> st' = st"
proof (cases "(mempool st = [] \<and> \<not> forceMine) \<or> isMining st")
  case True
  with assms show ?thesis
    by (auto simp: minePendingTransactions_def split: if_splits)
next
  case False
  then have idle: "\<not> isMining st" by simp
  let ?st1 = "st\<lparr>isMining := True\<rparr>"
  show ?thesis
  proof (cases "getLatestBlock ?st1")
    case None
    with assms False idle show ?thesis
      by (auto simp: minePendingTransactions_def Let_def busy_flag_restored)
  next
    case (Some tip)
    define selected where "selected = take 10 (mempool st)"
    define coinbase where "coinbase =
       Transaction_new env now1 ''COINBASE'' minerAddress
         (js_add (getCurrentReward ?st1) (foldl (\<lambda>sum t. js_add sum (fee t)) (Num 0) selected))
         (Num 0) None"
    define newBlock where "newBlock =
       (Block_new env now2 (length (chain ?st1)) (coinbase # selected) (Some now2) (hash tip) 0
          ledger_difficulty)\<lparr>reward := getCurrentReward ?st1, miner := minerAddress\<rparr>"
    have txs: "transactions newBlock = coinbase # selected"
      by (simp add: newBlock_def Block_new_def Let_def)
    have unfolded: "minePendingTransactions env now1 now2 st minerAddress forceMine =
       (case mineBlock env ledger_difficulty minerAddress newBlock of
          None \<Rightarrow> None
        | Some mined \<Rightarrow>
            (if fst (addBlock env ?st1 (fst mined))
             then Some (Mined (fst mined),
                        (snd (addBlock env ?st1 (fst mined)))
                          \<lparr>mempool := foldl evict (mempool (snd (addBlock env ?st1 (fst mined)))) selected,
                           isMining := False\<rparr>)
             else Some (Nothing, (snd (addBlock env ?st1 (fst mined)))\<lparr>isMining := False\<rparr>)))"
      using False Some
      by (auto simp add: minePendingTransactions_def Let_def selected_def coinbase_def newBlock_def
               split: option.splits)
    from assms unfolded obtain blk stats where
      mined: "mineBlock env ledger_difficulty minerAddress newBlock = Some (blk, stats)"
      by (cases "mineBlock env ledger_difficulty minerAddress newBlock") auto
    from mineBlock_shape[OF mined] txs
    have btxs: "transactions blk = coinbase # selected" by auto
    obtain ok st2 where app: "addBlock env ?st1 blk = (ok, st2)" by (cases "addBlock env ?st1 blk")
    show ?thesis
    proof (cases ok)
      case True
      with assms unfolded mined app have r: "r = Mined blk"
        and st': "st' = st2\<lparr>mempool := foldl evict (mempool st2) selected, isMining := False\<rparr>"
        by simp_all
      from addBlock_frame[OF app] have mp: "mempool st2 = mempool st" by simp
      from app True have "addBlock env ?st1 blk = (True, st2)" by simp
      from addBlock_succeeds[OF this] have ch: "chain st2 = chain st @ [blk]" by simp
      from st' mp have "mempool st' = drop 10 (mempool st)"
        by (simp add: selected_def foldl_evict_prefix)
      with r btxs ch st' show ?thesis
        by (simp add: selected_def)
    next
      case False
      with assms unfolded mined app have r: "r = Nothing" and st': "st' = st2\<lparr>isMining := False\<rparr>"
        by simp_all
      from app False have "addBlock env ?st1 blk = (False, st2)" by simp
      from addBlock_fails[OF this] have "st2 = ?st1" by simp
      with r st' idle show ?thesis by (simp add: busy_flag_restored)
    qed
  qed
qed

text \<open>The theorem at the sample run, where a block is mined and appended.\<close>

theorem minePendingTransactions_mempool_witness:
  "minePendingTransactions sample_env 1704067200003 1704067200004 sample_ledger1 ''GSCM'' False
     = Some (Mined sample_block1, sample_ledger2)
   \<and> mempool sample_ledger1 = [sample_tx]
   \<and> mempool sample_ledger2 = drop 10 (mempool sample_ledger1)
   \<and> tl (transactions sample_block1) = take 10 (mempool sample_ledger1)
   \<and> chain sample_ledger2 = chain sample_ledger1 @ [sample_block1]"
proof -
  have run: "minePendingTransactions sample_env 1704067200003 1704067200004 sample_ledger1 ''GSCM'' False
     = Some (Mined sample_block1, sample_ledger2)"
    by (rule sample_run_mine)
  have pool: "mempool sample_ledger1 = [sample_tx]"
    by (simp add: sample_ledger1_def)
  note evicted = minePendingTransactions_mempool[OF run, unfolded mine_result.case]
  from evicted run pool show ?thesis by blast
qed

section \<open>Admission to the mempool\<close>






lemma getBalance_mempool [simp]: "getBalance (st\<lparr>mempool := p\<rparr>) a = getBalance st a"
  by (simp add: getBalance_def)




text \<open>
  Claim C10. A transaction whose identifier is that of a transaction in a block of the
  chain is added to the mempool whenever it passes the validity check, the balance check
  and the check for duplicates in the mempool: the chain is not consulted.
\<close>

theorem resubmission_after_inclusion:
  assumes "txId t \<in> set (map txId (concat (map transactions (chain st))))"
    and "isTransactionValid env st t"
    and "\<not> val_lt_num (getBalance st (sender t)) (js_add (amount t) (fee t))"
    and "\<not> list_ex (\<lambda>m. txId m = txId t) (mempool st)"
  shows "addTransactionToMempool env st t = (Added, st\<lparr>mempool := mempool st @ [t]\<rparr>)"
  using assms by (simp add: addTransactionToMempool_def Let_def)

text \<open>
  The theorem at the sample run: after the block with the sample transaction is appended,
  the same transaction is admitted again.
\<close>

theorem resubmission_after_inclusion_witness:
  "minePendingTransactions sample_env 1704067200003 1704067200004 sample_ledger1 ''GSCM'' False
     = Some (Mined sample_block1, sample_ledger2)
   \<and> transactions sample_block1 = [sample_coinbase, sample_tx]
   \<and> txId sample_tx \<in> set (map txId (concat (map transactions (chain sample_ledger2))))
   \<and> addTransactionToMempool sample_env sample_ledger2 sample_tx
       = (Added, sample_ledger2\<lparr>mempool := mempool sample_ledger2 @ [sample_tx]\<rparr>)"
proof -
  have txs: "transactions sample_block1 = [sample_coinbase, sample_tx]" by code_simp
  have included: "txId sample_tx \<in> set (map txId (concat (map transactions (chain sample_ledger2))))"
    by code_simp
  have valid: "isTransactionValid sample_env sample_ledger2 sample_tx" by code_simp
  have funded: "\<not> val_lt_num (getBalance sample_ledger2 (sender sample_tx))
                      (js_add (amount sample_tx) (fee sample_tx))" by code_simp
  have fresh: "\<not> list_ex (\<lambda>m. txId m = txId sample_tx) (mempool sample_ledger2)" by code_simp
  from resubmission_after_inclusion[OF included valid funded fresh] sample_run_mine txs included
  show ?thesis by blast
qed

section \<open>Validity of a transaction\<close>

text \<open>
  For an amount and a fee that are finite numbers, \<open>isValid\<close> is the stated
  condition.
\<close>

lemma tx_isValid_numeric:
  assumes "amount t = Num a" and "fee t = Num f"
  shows "tx_isValid env t \<longleftrightarrow>
           sender t \<noteq> [] \<and> receiver t \<noteq> [] \<and> 0 < a \<and> 0 \<le> f
           \<and> (is_system_sender (sender t) \<or> txId t = tx_calculateHash env t)"
  using assms by (auto simp: tx_isValid_def)

text \<open>
  Claim C5 at the code. A transaction whose amount is \<open>NaN\<close> (the constructor applies
  \<open>parseFloat\<close> to whatever it is given) passes \<open>isValid\<close>, for every runtime, although
  its amount is not greater than zero: \<open>NaN <= 0\<close> is false.
\<close>

theorem isValid_accepts_NaN_amount:
  "tx_isValid env (Transaction_new env now ''GSCA'' ''GSCB'' NaN (Num (1 / 10)) None)
   \<and> \<not> js_lt (Num 0) (amount (Transaction_new env now ''GSCA'' ''GSCB'' NaN (Num (1 / 10)) None))"
proof -
  have "\<not> js_lt (to_double (1 / 10)) (Num 0)"
    by code_simp
  then show ?thesis
    by (simp add: tx_isValid_def Transaction_new_def Let_def is_system_sender_def
          tx_calculateHash_def)
qed

section \<open>The block reward\<close>

text \<open>
  The reward by height \<open>h\<close>: 50 at height 0; \<open>50 / 2 ^ k\<close> at the heights from
  \<open>k * 1051200 + 1\<close> to \<open>(k + 1) * 1051200\<close> for \<open>k < 64\<close>; 0 from height
  \<open>64 * 1051200 + 1\<close> on.
\<close>

lemma halvings_in_era:
  fixes h k :: int
  assumes "k * 1051200 < h" and "h \<le> (k + 1) * 1051200"
  shows "(h - 1) div 1051200 = k"
proof (rule int_div_pos_eq[where r = "h - 1 - 1051200 * k"])
  show "h - 1 = 1051200 * k + (h - 1 - 1051200 * k)" by simp
  from assms show "0 \<le> h - 1 - 1051200 * k" by simp
  from assms show "h - 1 - 1051200 * k < 1051200" by simp
qed

lemma halvings_late:
  fixes h :: int
  assumes "64 * 1051200 < h"
  shows "64 \<le> (h - 1) div 1051200"
proof -
  have "(64 * 1051200) div 1051200 \<le> (h - 1) div (1051200 :: int)"
    using assms by (intro zdiv_mono1) simp_all
  then show ?thesis by simp
qed

text \<open>
  \<open>50 / Math.pow(2, k)\<close> is exact for every \<open>k\<close> below 64: neither the power nor the
  quotient is rounded.
\<close>

lemma reward_table:
  "list_all (\<lambda>k. js_div (Num 50) (js_pow2 (int k)) = Num (50 / 2 ^ k)) [0..<64]"
  by code_simp

lemma reward_exact: "k < 64 \<Longrightarrow> js_div (Num 50) (js_pow2 (int k)) = Num (50 / 2 ^ k)"
  using reward_table by (simp add: list_all_iff)

lemma getCurrentReward_eras:
  fixes k :: nat
  assumes h: "h = int (length (chain st)) - 1"
  shows "(h = 0 \<longrightarrow> getCurrentReward st = Num 50)
     \<and> (int k * 1051200 < h \<and> h \<le> (int k + 1) * 1051200 \<and> k < 64
          \<longrightarrow> getCurrentReward st = Num (50 / 2 ^ k))
     \<and> (64 * 1051200 < h \<longrightarrow> getCurrentReward st = Num 0)"
proof (intro conjI impI)
  assume "h = 0"
  with h show "getCurrentReward st = Num 50"
    by (simp add: getCurrentReward_def miningReward_def)
next
  assume era: "int k * 1051200 < h \<and> h \<le> (int k + 1) * 1051200 \<and> k < 64"
  then have halvings: "(h - 1) div 1051200 = int k" by (simp add: halvings_in_era)
  from era have "h \<noteq> 0" by auto
  with h halvings era have "getCurrentReward st = js_div (Num 50) (js_pow2 (int k))"
    by (simp add: getCurrentReward_def miningReward_def halvingInterval_def Let_def)
  with era show "getCurrentReward st = Num (50 / 2 ^ k)"
    by (simp add: reward_exact)
next
  assume "64 * 1051200 < h"
  then have "64 \<le> (h - 1) div 1051200" and "h \<noteq> 0" by (simp_all add: halvings_late)
  then show "getCurrentReward st = Num 0"
    using h by (simp add: getCurrentReward_def miningReward_def halvingInterval_def Let_def)
qed

text \<open>
  Claim C2 at the code. With 1051201 blocks in the chain, height 1051200, exactly one
  halving interval past genesis, the reward is still 50; it is 25 one block later. At
  height \<open>64 * 1051200\<close> it is \<open>50 / 2 ^ 63\<close>, and 0 one block later.
\<close>

theorem getCurrentReward_one_interval_past_genesis:
  "getCurrentReward (st\<lparr>chain := replicate 1051201 b\<rparr>) = Num 50
   \<and> getCurrentReward (st\<lparr>chain := replicate 1051202 b\<rparr>) = Num 25
   \<and> getCurrentReward (st\<lparr>chain := replicate 67276801 b\<rparr>) = Num (50 / 2 ^ 63)
   \<and> getCurrentReward (st\<lparr>chain := replicate 67276802 b\<rparr>) = Num 0"
proof -
  have exact: "js_div (Num 50) (js_pow2 0) = Num 50" "js_div (Num 50) (js_pow2 1) = Num 25"
    "js_div (Num 50) (js_pow2 63) = Num (50 / 2 ^ 63)"
    by code_simp+
  show ?thesis
    by (simp add: getCurrentReward_def miningReward_def halvingInterval_def Let_def exact)
qed

section \<open>The end-to-end scenario\<close>

lemma getCurrentReward_busy [simp]: "getCurrentReward (st\<lparr>isMining := b\<rparr>) = getCurrentReward st"
  by (simp add: getCurrentReward_def)

lemma minePendingTransactions_Mined:
  assumes "minePendingTransactions env now1 now2 st minerAddress forceMine = Some (Mined blk, st')"
  shows "transactions blk
           = Transaction_new env now1 ''COINBASE'' minerAddress
               (js_add (getCurrentReward st)
                  (foldl (\<lambda>sum t. js_add sum (fee t)) (Num 0) (take 10 (mempool st))))
               (Num 0) None
             # take 10 (mempool st)"
    and "miner blk = minerAddress"
    and "chain st' = chain st @ [blk]"
    and "balances st' = foldl apply_block [] (chain st @ [blk])"
    and "mempool st' = drop 10 (mempool st)"
proof -
  have early: "\<not> ((mempool st = [] \<and> \<not> forceMine) \<or> isMining st)"
    using assms by (auto simp: minePendingTransactions_def split: if_splits)
  let ?st1 = "st\<lparr>isMining := True\<rparr>"
  from assms early obtain tip where tip: "getLatestBlock ?st1 = Some tip"
    by (cases "getLatestBlock ?st1") (auto simp: minePendingTransactions_def Let_def)
  define selected where "selected = take 10 (mempool st)"
  define coinbase where "coinbase =
     Transaction_new env now1 ''COINBASE'' minerAddress
       (js_add (getCurrentReward st) (foldl (\<lambda>sum t. js_add sum (fee t)) (Num 0) selected))
       (Num 0) None"
  define newBlock where "newBlock =
     (Block_new env now2 (length (chain st)) (coinbase # selected) (Some now2) (hash tip) 0
        ledger_difficulty)\<lparr>reward := getCurrentReward st, miner := minerAddress\<rparr>"
  have txs: "transactions newBlock = coinbase # selected"
    by (simp add: newBlock_def Block_new_def Let_def)
  have unfolded: "minePendingTransactions env now1 now2 st minerAddress forceMine =
     (case mineBlock env ledger_difficulty minerAddress newBlock of
        None \<Rightarrow> None
      | Some mined \<Rightarrow>
          (if fst (addBlock env ?st1 (fst mined))
           then Some (Mined (fst mined),
                      (snd (addBlock env ?st1 (fst mined)))
                        \<lparr>mempool := foldl evict (mempool (snd (addBlock env ?st1 (fst mined)))) selected,
                         isMining := False\<rparr>)
           else Some (Nothing, (snd (addBlock env ?st1 (fst mined)))\<lparr>isMining := False\<rparr>)))"
    using early tip
    by (auto simp add: minePendingTransactions_def Let_def selected_def coinbase_def newBlock_def
             split: option.splits)
  from assms unfolded obtain b stats where
    mined: "mineBlock env ledger_difficulty minerAddress newBlock = Some (b, stats)"
    by (cases "mineBlock env ledger_difficulty minerAddress newBlock") auto
  obtain ok st2 where app: "addBlock env ?st1 b = (ok, st2)" by (cases "addBlock env ?st1 b")
  from assms unfolded mined app have ok: ok and b: "b = blk"
    and st': "st' = st2\<lparr>mempool := foldl evict (mempool st2) selected, isMining := False\<rparr>"
    by (auto split: if_splits)
  from mineBlock_shape[OF mined] txs b
  show "transactions blk
           = Transaction_new env now1 ''COINBASE'' minerAddress
               (js_add (getCurrentReward st)
                  (foldl (\<lambda>sum t. js_add sum (fee t)) (Num 0) (take 10 (mempool st))))
               (Num 0) None
             # take 10 (mempool st)"
    by (auto simp: coinbase_def selected_def)
  from mineBlock_shape[OF mined] b show "miner blk = minerAddress" by auto
  from app ok b have st2: "st2 = updateBalances (?st1\<lparr>chain := chain ?st1 @ [blk]\<rparr>)"
    by (auto simp: addBlock_def split: if_splits)
  from st2 st' show "chain st' = chain st @ [blk]" by (simp add: updateBalances_def)
  from st2 st' show "balances st' = foldl apply_block [] (chain st @ [blk])"
    by (simp add: updateBalances_def)
  from st2 st' show "mempool st' = drop 10 (mempool st)"
    by (simp add: updateBalances_def selected_def foldl_evict_prefix)
qed

text \<open>Reading the balance table after an assignment and after the reset of an entry.\<close>

lemma read_entry_write_entry:
  "a \<noteq> ''__proto__'' \<Longrightarrow>
     read_entry (write_entry bal a v) k = (if k = a then Some v else read_entry bal k)"
  by (simp add: read_entry_def write_entry_def update_conv')

lemma read_entry_ensure_entry:
  "read_entry (ensure_entry bal a) k
     = (if k = a \<and> \<not> entry_truthy (read_entry bal a) then Some (Number (Num 0))
        else read_entry bal k)"
proof (cases "a = ''__proto__''")
  case True
  then show ?thesis by (simp add: ensure_entry_def read_entry_def entry_truthy_def)
next
  case False
  then show ?thesis by (simp add: ensure_entry_def read_entry_write_entry)
qed

text \<open>The genesis block leaves 255 with the genesis address and 0 with its miner.\<close>

lemma GSCBlockchain_new_fresh:
  assumes "GSCBlockchain_new env now = Some st0"
  shows "\<exists>g. st0 = \<lparr>chain = [g], mempool = [],
                     balances = [(genesisAddress, Number (Num 255)), (''GENESIS'', Number (Num 0))],
                     isMining = False, currentSupply = genesisReward\<rparr>
             \<and> miner g = ''GENESIS''
             \<and> apply_block [] g
                 = [(genesisAddress, Number (Num 255)), (''GENESIS'', Number (Num 0))]"
proof -
  define gtx where "gtx = Transaction_new env now ''GENESIS'' genesisAddress genesisReward (Num 0)
              (Some 1704067200000)"
  define gb where "gb = Block_new env now 0 [gtx] (Some 1704067200000) (replicate 64 (CHR ''0'')) 0 1"
  from assms obtain g stats where mined: "mineBlock env 1 ''GENESIS'' gb = Some (g, stats)"
    and st0: "st0 = (updateBalances \<lparr>chain = [] @ [g], mempool = [], balances = [],
                      isMining = False, currentSupply = Num 0\<rparr>)\<lparr>currentSupply := genesisReward\<rparr>"
    by (auto simp: GSCBlockchain_new_def createGenesisBlock_def Let_def gtx_def gb_def
             split: option.splits)
  from mineBlock_shape[OF mined] have g: "transactions g = [gtx]" "miner g = ''GENESIS''"
    by (auto simp: gb_def Block_new_def Let_def)
  have exact: "to_double 255 = Num 255" "to_double 0 = Num 0"
    by code_simp+
  have "foldl apply_block [] [g]
          = [(genesisAddress, Number (Num 255)), (''GENESIS'', Number (Num 0))]"
    using g
    by (simp add: apply_block_def apply_transaction_def Let_def gtx_def Transaction_new_def
          is_system_sender_def ensure_entry_def entry_truthy_def read_entry_def write_entry_def
          val_add_def prototype_keys_def genesisAddress_def genesisReward_def exact)
  with st0 g show ?thesis by (simp add: updateBalances_def)
qed

text \<open>
  Claim C1 at the code. On a fresh ledger the genesis address holds 255. A transfer of 10
  with fee 0.1 from the genesis address to \<open>addressX\<close> is admitted and the mempool has
  one entry. When \<open>addressM\<close> then mines a block, the block holds the coinbase
  transaction to \<open>addressM\<close> and the transfer, in this order; the genesis address holds
  \<open>255 - 10.1\<close>, \<open>addressX\<close> holds 10 and the mempool is empty. The miner holds 50.2,
  the reward of 50 plus twice the fee, and not \<open>currentReward + 0.1\<close>: the coinbase
  amount already contains the fee, and \<open>updateBalances\<close> credits the fee to the miner
  once more. The three addresses are distinct and not empty, and \<open>addressX\<close> and
  \<open>addressM\<close> are not among the keys that the balance table inherits.
\<close>

theorem end_to_end_scenario:
  assumes fresh: "GSCBlockchain_new env now0 = Some st0"
    and x: "addressX \<noteq> []" "addressX \<noteq> genesisAddress" "addressX \<notin> set prototype_keys"
    and m: "addressM \<noteq> []" "addressM \<noteq> genesisAddress" "addressM \<noteq> addressX"
      "addressM \<notin> set prototype_keys"
    and tx: "tx = Transaction_new env now1 genesisAddress addressX (Num 10) (Num (1 / 10)) None"
    and submitted: "addTransactionToMempool env st0 tx = (r1, st1)"
    and mined: "minePendingTransactions env now2 now3 st1 addressM False = Some (Mined blk, st2)"
  shows "getBalance st0 genesisAddress = Number (Num 255)
         \<and> r1 = Added \<and> length (mempool st1) = 1
         \<and> transactions blk
             = [Transaction_new env now2 ''COINBASE'' addressM (Num (501 / 10)) (Num 0) None, tx]
         \<and> getBalance st2 genesisAddress = Number (js_sub (Num 255) (to_double (101 / 10)))
         \<and> getBalance st2 addressX = Number (Num 10)
         \<and> getCurrentReward st1 = Num 50
         \<and> getBalance st2 addressM = Number (to_double (502 / 10))
         \<and> getBalance st2 addressM \<noteq> Number (js_add (getCurrentReward st1) (to_double (1 / 10)))
         \<and> length (mempool st2) = 0"
proof -
  define f where "f = to_double (1 / 10)"
  define c where "c = to_double (501 / 10)"
  define left where "left = js_sub (Num 255) (to_double (101 / 10))"
  define twice where "twice = to_double (502 / 10)"
  have exact: "to_double 0 = Num 0" "to_double 10 = Num 10"
    by code_simp+
  have sums: "js_add (Num 0) f = f" "js_add (Num 50) f = c" "parseFloat c = c"
    "js_add (Num 0) c = c" "js_add c f = twice"
    "js_sub (Num 255) (js_add (Num 10) f) = left"
    unfolding f_def c_def left_def twice_def by code_simp+
  have signs: "\<not> js_lt f (Num 0)" "js_le (js_add (Num 10) f) (Num 255)"
    "\<not> js_lt (Num 255) (js_add (Num 10) f)" "js_truthy c" "js_truthy left" "js_truthy twice"
    "twice \<noteq> c"
    unfolding f_def c_def left_def twice_def by code_simp+
  let ?B0 = "[(genesisAddress, Number (Num 255)), (''GENESIS'', Number (Num 0))]"
  from GSCBlockchain_new_fresh[OF fresh] obtain g where
    st0: "st0 = \<lparr>chain = [g], mempool = [], balances = ?B0,
                 isMining = False, currentSupply = genesisReward\<rparr>"
    and g: "miner g = ''GENESIS''"
    and g_bal: "apply_block [] g = ?B0" by blast
  have ga: "genesisAddress \<noteq> []" "genesisAddress \<noteq> ''GENESIS''" "genesisAddress \<noteq> ''COINBASE''"
    "genesisAddress \<noteq> ''__proto__''"
    by (simp_all add: genesisAddress_def)
  have own: "addressX \<noteq> ''__proto__''" "addressM \<noteq> ''__proto__''"
    using x m by (auto simp: prototype_keys_def)
  have read0: "read_entry ?B0 genesisAddress = Some (Number (Num 255))"
    "\<not> entry_truthy (read_entry ?B0 addressX)" "\<not> entry_truthy (read_entry ?B0 addressM)"
    using x m ga own by (simp_all add: read_entry_def entry_truthy_def)
  have bal0: "getBalance st0 genesisAddress = Number (Num 255)"
    by (simp add: st0 getBalance_def read0 entry_truthy_def)
  have txf: "sender tx = genesisAddress" "receiver tx = addressX" "amount tx = Num 10"
    "fee tx = f" "txId tx = tx_calculateHash env tx"
    by (simp_all add: tx Transaction_new_def Let_def tx_calculateHash_def exact f_def)
  have valid: "tx_isValid env tx"
    using txf x ga signs by (simp add: tx_isValid_def is_system_sender_def)
  have "isTransactionValid env st0 tx"
    using valid txf bal0 signs by (simp add: isTransactionValid_def Let_def st0 exact)
  with submitted txf bal0 signs have r1: "r1 = Added" and st1: "st1 = st0\<lparr>mempool := [tx]\<rparr>"
    by (simp_all add: addTransactionToMempool_def Let_def st0)
  have reward: "getCurrentReward st1 = Num 50"
    by (simp add: st1 st0 getCurrentReward_def miningReward_def)
  note facts = minePendingTransactions_Mined[OF mined]
  define cb where "cb = Transaction_new env now2 ''COINBASE'' addressM (Num (501 / 10)) (Num 0) None"
  have cb_code: "Transaction_new env now2 ''COINBASE'' addressM (js_add (Num 50) (js_add (Num 0) f))
                   (Num 0) None = cb"
    by (simp add: cb_def Transaction_new_def Let_def tx_calculateHash_def sums c_def[symmetric])
  have btxs: "transactions blk = [cb, tx]"
    using facts(1) reward txf cb_code by (simp add: st1 st0)
  have pool: "mempool st2 = []"
    using facts(5) by (simp add: st1 st0)
  have cbf: "sender cb = ''COINBASE''" "receiver cb = addressM" "amount cb = c" "fee cb = Num 0"
    by (simp_all add: cb_def Transaction_new_def Let_def exact c_def)
  have bal2: "balances st2 = apply_transaction addressM (apply_transaction addressM ?B0 cb) tx"
    using facts(2,4) btxs g_bal by (simp add: st1 st0 apply_block_def)
  have sys: "is_system_sender ''COINBASE''" "\<not> is_system_sender genesisAddress"
    by (simp_all add: is_system_sender_def genesisAddress_def)
  have after_cb: "read_entry (apply_transaction addressM ?B0 cb) k
      = (if k = addressM then Some (Number c) else read_entry ?B0 k)" for k
    using own read0
    by (simp add: apply_transaction_def Let_def cbf sys read_entry_write_entry
          read_entry_ensure_entry val_add_def sums)
  have after_tx: "read_entry (balances st2) k
      = (if k = addressM then Some (Number twice)
         else if k = addressX then Some (Number (Num 10))
         else if k = genesisAddress then Some (Number left)
         else read_entry ?B0 k)" for k
    using own ga x m read0 signs
    by (simp add: bal2 apply_transaction_def[where bal = "apply_transaction _ _ _"] Let_def txf sys
          read_entry_write_entry read_entry_ensure_entry after_cb val_add_def val_sub_def
          entry_truthy_def sums exact)
  have b_g: "getBalance st2 genesisAddress = Number left"
    using m x signs by (simp add: getBalance_def after_tx entry_truthy_def)
  have b_x: "getBalance st2 addressX = Number (Num 10)"
    using m x by (simp add: getBalance_def after_tx entry_truthy_def)
  have b_m: "getBalance st2 addressM = Number twice"
    using signs by (simp add: getBalance_def after_tx entry_truthy_def)
  have b_not: "getBalance st2 addressM \<noteq> Number (js_add (getCurrentReward st1) (to_double (1 / 10)))"
    using signs sums by (simp add: b_m reward f_def[symmetric])
  have len: "length (mempool st1) = 1" "length (mempool st2) = 0"
    by (simp_all add: st1 st0 pool)
  from bal0 r1 len btxs[unfolded cb_def] b_g[unfolded left_def] b_x reward b_m[unfolded twice_def]
    b_not
  show ?thesis by blast
qed

text \<open>The theorem at the sample run, with \<open>GSCX\<close> and \<open>GSCM\<close>.\<close>

theorem end_to_end_scenario_witness:
  "GSCBlockchain_new sample_env 1704067200001 = Some sample_ledger0
   \<and> ''GSCX'' \<notin> set prototype_keys \<and> ''GSCM'' \<notin> set prototype_keys
   \<and> addTransactionToMempool sample_env sample_ledger0 sample_tx = (Added, sample_ledger1)
   \<and> minePendingTransactions sample_env 1704067200003 1704067200004 sample_ledger1 ''GSCM'' False
       = Some (Mined sample_block1, sample_ledger2)
   \<and> getBalance sample_ledger0 genesisAddress = Number (Num 255)
   \<and> length (mempool sample_ledger1) = 1
   \<and> transactions sample_block1 = [sample_coinbase, sample_tx]
   \<and> getBalance sample_ledger2 genesisAddress = Number (js_sub (Num 255) (to_double (101 / 10)))
   \<and> getBalance sample_ledger2 ''GSCX'' = Number (Num 10)
   \<and> getCurrentReward sample_ledger1 = Num 50
   \<and> getBalance sample_ledger2 ''GSCM'' = Number (to_double (502 / 10))
   \<and> getBalance sample_ledger2 ''GSCM''
       \<noteq> Number (js_add (getCurrentReward sample_ledger1) (to_double (1 / 10)))
   \<and> length (mempool sample_ledger2) = 0"
proof -
  have x: "''GSCX'' \<noteq> []" "''GSCX'' \<noteq> genesisAddress" "''GSCX'' \<notin> set prototype_keys"
    by (simp_all add: genesisAddress_def prototype_keys_def)
  have m: "''GSCM'' \<noteq> []" "''GSCM'' \<noteq> genesisAddress" "''GSCM'' \<noteq> ''GSCX''"
    "''GSCM'' \<notin> set prototype_keys"
    by (simp_all add: genesisAddress_def prototype_keys_def)
  have cb: "Transaction_new sample_env 1704067200003 ''COINBASE'' ''GSCM'' (Num (501 / 10)) (Num 0) None
              = sample_coinbase"
    by (simp add: sample_coinbase_def)
  note run = end_to_end_scenario[OF sample_run_genesis x m sample_tx_def sample_run_submit
               sample_run_mine, unfolded cb]
  from run x m sample_run_genesis sample_run_submit sample_run_mine show ?thesis by blast
qed

end
